theory Spec2Isabelle
  imports Complex_Main
begin

section \<open>The conversation handler of openai\_conversation.py\<close>

text \<open>
  The module defines one class, \<^verbatim>\<open>OpenAIConversationHandler\<close>. Its methods are
  embedded below as functions on a record of the instance attributes. Python is
  dynamically typed and none of the methods but \<^verbatim>\<open>add_message_from_user\<close> looks
  at the type of an argument, so arguments range over a datatype of Python values.
\<close>

subsection \<open>Python values, types and exceptions\<close>

text \<open>
  The values the methods can be handed. \<open>PyStrSub c t\<close> is an instance, with text
  \<open>t\<close> and no attribute beyond those of \<^verbatim>\<open>str\<close>, of a class that properly
  derives from \<^verbatim>\<open>str\<close>. \<open>PyDict\<close> is a built-in \<^verbatim>\<open>dict\<close> with string keys,
  in insertion order. \<open>PyObj c attrs\<close> is an instance of a class that derives from
  \<^verbatim>\<open>dict\<close> and gives its items, all under string keys, as attributes too, as
  \<^verbatim>\<open>OpenAIObject\<close> of the \<^verbatim>\<open>openai\<close> library does: the completion service's
  response, its candidates and their messages are such objects. In both, \<open>c\<close> is
  the text the class formats to, such as \<^verbatim>\<open><class '__main__.Tag'>\<close> or, for an
  enumeration, \<^verbatim>\<open><enum 'Color'>\<close>. A \<open>char\<close> of a string stands for one code point.
\<close>

datatype pyval =
    PyNone
  | PyBool bool
  | PyInt int
  | PyFloat real
  | PyStr string
  | PyStrSub string string
  | PyList "pyval list"
  | PyDict "(string \<times> pyval) list"
  | PyObj string "(string \<times> pyval) list"

datatype pytype =
    NoneType | BoolT | IntT | FloatT | StrT | ListT | DictT | ClassT string

text \<open>\<^verbatim>\<open>type(v)\<close>: the exact runtime class of a value.\<close>

fun py_type :: "pyval \<Rightarrow> pytype" where
  "py_type PyNone = NoneType"
| "py_type (PyBool b) = BoolT"
| "py_type (PyInt i) = IntT"
| "py_type (PyFloat x) = FloatT"
| "py_type (PyStr t) = StrT"
| "py_type (PyStrSub c t) = ClassT c"
| "py_type (PyList vs) = ListT"
| "py_type (PyDict kvs) = DictT"
| "py_type (PyObj c attrs) = ClassT c"

text \<open>\<^verbatim>\<open>isinstance(v, str)\<close>: the value is text, of class \<^verbatim>\<open>str\<close> or of a subclass.\<close>

fun isinstance_str :: "pyval \<Rightarrow> bool" where
  "isinstance_str (PyStr t) = True"
| "isinstance_str (PyStrSub c t) = True"
| "isinstance_str v = False"

text \<open>
  The text a class of the given name formats to when its metaclass is \<^verbatim>\<open>type\<close>,
  such as \<^verbatim>\<open><class 'int'>\<close>.
\<close>

definition class_repr :: "string \<Rightarrow> string" where
  "class_repr name = ''<class '' @ [CHR 0x27] @ name @ [CHR 0x27] @ ''>''"

text \<open>The text \<^verbatim>\<open>{type(user_msg)}\<close> formats to.\<close>

fun type_repr :: "pytype \<Rightarrow> string" where
  "type_repr NoneType = class_repr ''NoneType''"
| "type_repr BoolT = class_repr ''bool''"
| "type_repr IntT = class_repr ''int''"
| "type_repr FloatT = class_repr ''float''"
| "type_repr StrT = class_repr ''str''"
| "type_repr ListT = class_repr ''list''"
| "type_repr DictT = class_repr ''dict''"
| "type_repr (ClassT c) = c"

text \<open>The class of the service's responses.\<close>

definition OpenAIObject :: string where
  "OpenAIObject = class_repr ''openai.openai_object.OpenAIObject''"

text \<open>
  The exceptions that can be in flight in this module. \<open>APIError\<close> is
  \<^verbatim>\<open>openai.error.APIError\<close>; \<open>OtherException\<close> is an instance of any other class
  that derives from \<^verbatim>\<open>Exception\<close> (the service's rate-limit, connection and
  authentication errors among them); \<open>BaseExceptionOnly\<close> is an instance of a class
  that derives from \<^verbatim>\<open>BaseException\<close> but not from \<^verbatim>\<open>Exception\<close>
  (\<^verbatim>\<open>KeyboardInterrupt\<close>, \<^verbatim>\<open>SystemExit\<close>). \<open>AttributeError\<close> carries the name
  of the attribute that was not found, \<open>ValueError\<close> its message.
\<close>

datatype pyexc =
    APIError string
  | ValueError string
  | IndexError
  | KeyError
  | TypeError
  | AttributeError string
  | OtherException string
  | BaseExceptionOnly string

text \<open>What the two \<^verbatim>\<open>except\<close> clauses of \<^verbatim>\<open>get_chatgpt_response\<close> match.\<close>

fun is_APIError :: "pyexc \<Rightarrow> bool" where
  "is_APIError (APIError m) = True"
| "is_APIError e = False"

fun is_Exception :: "pyexc \<Rightarrow> bool" where
  "is_Exception (BaseExceptionOnly c) = False"
| "is_Exception e = True"

text \<open>
  \<^verbatim>\<open>xs[i]\<close> on a list: an index from \<open>-len\<close> to \<open>-1\<close> counts from the end, and an
  index outside \<open>[-len, len)\<close> raises \<^verbatim>\<open>IndexError\<close>.
\<close>

definition list_getitem :: "'a list \<Rightarrow> int \<Rightarrow> pyexc + 'a" where
  "list_getitem xs i =
     (let n = int (length xs) in
      if 0 \<le> i \<and> i < n then Inr (xs ! nat i)
      else if - n \<le> i \<and> i < 0 then Inr (xs ! nat (n + i))
      else Inl IndexError)"

text \<open>
  \<^verbatim>\<open>v[i]\<close> for an integer \<open>i\<close>. A string yields the one-character string at
  that position; a dictionary, and an object that derives from it, has string keys
  and so no integer key; the other values are not subscriptable.
\<close>

fun getitem :: "pyval \<Rightarrow> int \<Rightarrow> pyexc + pyval" where
  "getitem (PyList vs) i = list_getitem vs i"
| "getitem (PyStr t) i =
     (case list_getitem t i of Inl e \<Rightarrow> Inl e | Inr c \<Rightarrow> Inr (PyStr [c]))"
| "getitem (PyStrSub c t) i =
     (case list_getitem t i of Inl e \<Rightarrow> Inl e | Inr c \<Rightarrow> Inr (PyStr [c]))"
| "getitem (PyDict kvs) i = Inl KeyError"
| "getitem (PyObj c attrs) i = Inl KeyError"
| "getitem v i = Inl TypeError"

text \<open>
  \<^verbatim>\<open>v.name\<close>, for the three names the module reads: \<^verbatim>\<open>choices\<close>,
  \<^verbatim>\<open>message\<close> and \<^verbatim>\<open>content\<close>. None of the built-in types has an attribute of
  one of these names, a \<^verbatim>\<open>dict\<close> with a key of that name included: only an object
  can answer, with its item of that name.
\<close>

fun getattr :: "pyval \<Rightarrow> string \<Rightarrow> pyexc + pyval" where
  "getattr (PyObj c attrs) name =
     (case map_of attrs name of None \<Rightarrow> Inl (AttributeError name) | Some v \<Rightarrow> Inr v)"
| "getattr v name = Inl (AttributeError name)"

subsection \<open>The handler and its methods\<close>

text \<open>
  The instance attributes. \<^verbatim>\<open>__init__\<close> also stores its \<^verbatim>\<open>api_key\<close> argument in
  the attribute \<^verbatim>\<open>openai.api_key\<close> of the imported module; no method of the class
  reads it back, and it is not a part of the handler.
\<close>

record handler =
  model :: pyval
  temperature :: pyval
  max_tokens :: pyval
  top_p :: pyval
  frequency_penalty :: pyval
  presence_penalty :: pyval
  system_context :: pyval
  messages :: "pyval list"
  message_index :: int

text \<open>
  A method that changes the handler returns the handler after the call together with
  how the call ended: \<open>Inr v\<close> when it returned \<open>v\<close>, \<open>Inl e\<close> when it raised \<open>e\<close>.
  \<^verbatim>\<open>add_message\<close> has no statement that can raise, so it is the handler after the
  call alone.
\<close>

definition add_message :: "pyval \<Rightarrow> pyval \<Rightarrow> handler \<Rightarrow> handler" where
  "add_message role content s =
     s\<lparr>messages := messages s @ [PyDict [(''role'', role), (''content'', content)]],
       message_index := message_index s + 1\<rparr>"

text \<open>\<^verbatim>\<open>__init__\<close>, with every parameter given.\<close>

definition init ::
  "pyval \<Rightarrow> pyval \<Rightarrow> pyval \<Rightarrow> pyval \<Rightarrow> pyval \<Rightarrow> pyval \<Rightarrow> pyval \<Rightarrow> pyval \<Rightarrow> handler" where
  "init api_key model_name system_ctx temp max_tok topp freq_pen pres_pen =
     add_message (PyStr ''system'') system_ctx
       \<lparr>model = model_name, temperature = temp, max_tokens = max_tok, top_p = topp,
        frequency_penalty = freq_pen, presence_penalty = pres_pen,
        system_context = system_ctx, messages = [], message_index = - 1\<rparr>"

text \<open>\<^verbatim>\<open>__init__\<close> with the defaults of its five optional parameters.\<close>

definition init_default :: "pyval \<Rightarrow> pyval \<Rightarrow> pyval \<Rightarrow> handler" where
  "init_default api_key model_name system_ctx =
     init api_key model_name system_ctx (PyInt 1) (PyInt 1024) (PyInt 1) (PyInt 0) (PyInt 0)"

definition clear_history :: "handler \<Rightarrow> handler" where
  "clear_history s =
     add_message (PyStr ''system'') (system_context s)
       (s\<lparr>messages := [], message_index := - 1\<rparr>)"

definition add_message_from_gpt_response ::
  "pyval \<Rightarrow> handler \<Rightarrow> handler \<times> (pyexc + pyval)" where
  "add_message_from_gpt_response gpt_response s =
     (case getattr gpt_response ''choices'' of
        Inl e \<Rightarrow> (s, Inl e)
      | Inr choices \<Rightarrow>
     (case getitem choices 0 of
        Inl e \<Rightarrow> (s, Inl e)
      | Inr choice \<Rightarrow>
     (case getattr choice ''message'' of
        Inl e \<Rightarrow> (s, Inl e)
      | Inr message \<Rightarrow>
     (case getattr message ''content'' of
        Inl e \<Rightarrow> (s, Inl e)
      | Inr reply \<Rightarrow> (add_message (PyStr ''assistant'') reply s, Inr PyNone)))))"

definition add_message_from_user ::
  "pyval \<Rightarrow> handler \<Rightarrow> handler \<times> (pyexc + pyval)" where
  "add_message_from_user user_msg s =
     (if py_type user_msg \<noteq> StrT
      then (s, Inl (ValueError
              (''Incorrect message type - expecting string, user_msg is ''
                 @ type_repr (py_type user_msg))))
      else (add_message (PyStr ''user'') user_msg s, Inr PyNone))"

text \<open>
  The keyword arguments of the one outbound call,
  \<^verbatim>\<open>openai.ChatCompletion.create\<close>. The call itself is a parameter of
  \<open>get_chatgpt_response\<close>: a function from these arguments to the response it
  returns or the exception it raises.
\<close>

record request =
  arg_model :: pyval
  arg_messages :: "pyval list"
  arg_temperature :: pyval
  arg_max_tokens :: pyval
  arg_top_p :: pyval
  arg_frequency_penalty :: pyval
  arg_presence_penalty :: pyval

text \<open>
  A line the method prints: the fixed prefix of the first or of the second
  \<^verbatim>\<open>except\<close> clause, followed by the text of the exception. Printing it can
  fail, in formatting the exception or in writing to the standard output (a closed
  stream, a broken pipe). \<^verbatim>\<open>print\<close> is therefore a parameter of
  \<open>get_chatgpt_response\<close> as well: a function from the line to \<open>None\<close> when the line
  was written, and to the exception raised when it was not.
\<close>

datatype printed =
    An_OpenAI_error_occurred pyexc
  | An_unexpected_error_occurred pyexc

text \<open>
  The result is the handler after the call, the lines printed, and how the call
  ended. An exception of the \<^verbatim>\<open>try\<close> body comes from the outbound call or from
  \<^verbatim>\<open>add_message_from_gpt_response\<close>; the first clause that matches it handles it,
  and one that neither clause matches leaves the method. An exception raised by the
  \<^verbatim>\<open>print\<close> of a clause is outside the \<^verbatim>\<open>try\<close> body and leaves the method
  too.
\<close>

definition create_kwargs :: "handler \<Rightarrow> request" where
  "create_kwargs s =
     \<lparr>arg_model = model s, arg_messages = messages s,
      arg_temperature = temperature s, arg_max_tokens = max_tokens s,
      arg_top_p = top_p s,
      arg_frequency_penalty = frequency_penalty s,
      arg_presence_penalty = presence_penalty s\<rparr>"

definition get_chatgpt_response ::
  "(request \<Rightarrow> pyexc + pyval) \<Rightarrow> (printed \<Rightarrow> pyexc option) \<Rightarrow> handler
     \<Rightarrow> handler \<times> printed list \<times> (pyexc + pyval)" where
  "get_chatgpt_response create print s =
     (let (s', body) =
        (case create (create_kwargs s) of
           Inl e \<Rightarrow> (s, Inl e)
         | Inr response \<Rightarrow> add_message_from_gpt_response response s)
      in case body of
           Inr v \<Rightarrow> (s', [], Inr PyNone)
         | Inl e \<Rightarrow>
             if is_APIError e then
               (case print (An_OpenAI_error_occurred e) of
                  None \<Rightarrow> (s', [An_OpenAI_error_occurred e], Inr PyNone)
                | Some x \<Rightarrow> (s', [], Inl x))
             else if is_Exception e then
               (case print (An_unexpected_error_occurred e) of
                  None \<Rightarrow> (s', [An_unexpected_error_occurred e], Inr PyNone)
                | Some x \<Rightarrow> (s', [], Inl x))
             else (s', [], Inl e))"

text \<open>
  \<^verbatim>\<open>get_response\<close> changes nothing, so it is how the call ended alone. Its
  \<open>index\<close> is \<open>None\<close> when the argument is left out.
\<close>

definition get_response :: "int option \<Rightarrow> handler \<Rightarrow> pyexc + pyval" where
  "get_response index s =
     (let i = (case index of None \<Rightarrow> message_index s | Some j \<Rightarrow> j) in
      case list_getitem (messages s) i of
        Inl e \<Rightarrow> Inl e
      | Inr m \<Rightarrow> getattr m ''content'')"

subsection \<open>Sequences of calls\<close>

text \<open>
  A client of the class calls its methods one after the other on one handler, and
  goes on with the same handler after a call that raised. The completion service may
  answer each request differently, so a call of \<^verbatim>\<open>get_chatgpt_response\<close> comes
  with the behaviour of the service and of \<^verbatim>\<open>print\<close> at that call.
\<close>

datatype call =
    Add_message pyval pyval
  | Add_message_from_user pyval
  | Add_message_from_gpt_response pyval
  | Get_chatgpt_response "request \<Rightarrow> pyexc + pyval" "printed \<Rightarrow> pyexc option"
  | Clear_history
  | Get_response "int option"

fun after_call :: "call \<Rightarrow> handler \<Rightarrow> handler" where
  "after_call (Add_message role content) s = add_message role content s"
| "after_call (Add_message_from_user user_msg) s = fst (add_message_from_user user_msg s)"
| "after_call (Add_message_from_gpt_response gpt_response) s =
     fst (add_message_from_gpt_response gpt_response s)"
| "after_call (Get_chatgpt_response create print) s =
     fst (get_chatgpt_response create print s)"
| "after_call Clear_history s = clear_history s"
| "after_call (Get_response index) s = s"

definition run :: "call list \<Rightarrow> handler \<Rightarrow> handler" where
  "run calls s = fold after_call calls s"

text \<open>The message index is the position of the last message of the transcript.\<close>

definition index_ok :: "handler \<Rightarrow> bool" where
  "index_ok s = (message_index s = int (length (messages s)) - 1)"

text \<open>Every entry of the transcript is a built-in dictionary.\<close>

definition dict_entries :: "handler \<Rightarrow> bool" where
  "dict_entries s = list_all (\<lambda>m. py_type m = DictT) (messages s)"

text \<open>
  The handler of the running example: the defaults, a model name and the system
  context \<^verbatim>\<open>You are helpful.\<close>
\<close>

definition example_handler :: handler where
  "example_handler =
     init_default (PyStr ''sk-example'') (PyStr ''gpt-3.5-turbo'') (PyStr ''You are helpful.'')"

subsection \<open>Exceptions of the helper operations\<close>

text \<open>
  The look-ups raise one exception each, so whatever leaves
  \<^verbatim>\<open>add_message_from_gpt_response\<close> derives from \<^verbatim>\<open>Exception\<close>, is no
  \<^verbatim>\<open>APIError\<close>, and leaves before the transcript is touched.
\<close>

lemma getattr_exception: "getattr v name = Inl e \<Longrightarrow> e = AttributeError name"
  by (cases v) (auto split: option.splits)

lemma list_getitem_exception: "list_getitem xs i = Inl e \<Longrightarrow> e = IndexError"
  by (auto simp: list_getitem_def Let_def split: if_splits)

lemma getitem_exception:
  "getitem v i = Inl e \<Longrightarrow> e = IndexError \<or> e = KeyError \<or> e = TypeError"
  by (cases v) (auto split: sum.splits dest: list_getitem_exception)

lemma add_message_from_gpt_response_raises:
  assumes "snd (add_message_from_gpt_response v s) = Inl e"
  shows "fst (add_message_from_gpt_response v s) = s" and "is_Exception e" and "\<not> is_APIError e"
  using assms
  by (auto simp: add_message_from_gpt_response_def split: sum.splits
      dest!: getattr_exception getitem_exception)

lemma add_message_from_gpt_response_returns:
  assumes "snd (add_message_from_gpt_response v s) = Inr r"
  shows "\<exists>reply. fst (add_message_from_gpt_response v s) = add_message (PyStr ''assistant'') reply s"
  using assms
  by (auto simp: add_message_from_gpt_response_def split: sum.splits)

lemma add_message_from_gpt_response_wellformed:
  assumes "map_of attrs ''choices'' = Some (PyList (PyObj c1 attrs1 # others))"
    and "map_of attrs1 ''message'' = Some (PyObj c2 attrs2)"
    and "map_of attrs2 ''content'' = Some reply"
  shows "add_message_from_gpt_response (PyObj c attrs) s
         = (add_message (PyStr ''assistant'') reply s, Inr PyNone)"
  using assms by (simp add: add_message_from_gpt_response_def list_getitem_def)

subsection \<open>Initialisation and reset\<close>

text \<open>
  C7: right after \<^verbatim>\<open>__init__\<close>, and right after \<^verbatim>\<open>clear_history\<close> whatever the
  transcript held before, the transcript is exactly one message, of role
  \<^verbatim>\<open>system\<close> and with the stored system context as its content, and the message
  index is 0.
\<close>

theorem init_and_clear_history_single_system_message:
  "messages (init api_key model_name system_ctx temp max_tok topp freq_pen pres_pen)
     = [PyDict [(''role'', PyStr ''system''), (''content'', system_ctx)]]
   \<and> system_context (init api_key model_name system_ctx temp max_tok topp freq_pen pres_pen)
     = system_ctx
   \<and> message_index (init api_key model_name system_ctx temp max_tok topp freq_pen pres_pen) = 0
   \<and> messages (clear_history s)
     = [PyDict [(''role'', PyStr ''system''), (''content'', system_context s)]]
   \<and> system_context (clear_history s) = system_context s
   \<and> message_index (clear_history s) = 0"
  by (simp add: init_def clear_history_def add_message_def)

subsection \<open>Appending messages\<close>

text \<open>
  C10: for every role and content, the role being one of \<^verbatim>\<open>system\<close>,
  \<^verbatim>\<open>user\<close>, \<^verbatim>\<open>assistant\<close> or not, \<^verbatim>\<open>add_message\<close> appends the message of
  that role and content to the transcript and advances the message index by one; it
  validates nothing and leaves the other attributes as they are.
\<close>

theorem add_message_any_role:
  "messages (add_message role content s)
     = messages s @ [PyDict [(''role'', role), (''content'', content)]]
   \<and> message_index (add_message role content s) = message_index s + 1
   \<and> system_context (add_message role content s) = system_context s"
  by (simp add: add_message_def)

text \<open>
  The input that refutes C5 as stated: an instance of a class derived from
  \<^verbatim>\<open>str\<close> is text, and \<^verbatim>\<open>add_message_from_user\<close> raises \<^verbatim>\<open>ValueError\<close> on
  it and appends nothing.
\<close>

theorem add_message_from_user_counterexample:
  "isinstance_str (PyStrSub (class_repr ''__main__.Tag'') ''Hi'')
   \<and> add_message_from_user (PyStrSub (class_repr ''__main__.Tag'') ''Hi'') example_handler
       = (example_handler,
          Inl (ValueError (''Incorrect message type - expecting string, user_msg is ''
                 @ class_repr ''__main__.Tag'')))"
  by (simp add: add_message_from_user_def)

text \<open>
  C5, amended: \<^verbatim>\<open>add_message_from_user\<close> raises \<^verbatim>\<open>ValueError\<close> and leaves the
  handler as it was when the exact runtime type of its argument is not
  \<^verbatim>\<open>str\<close> (the integer 42, and an instance of a proper subclass of \<^verbatim>\<open>str\<close>
  as well); when the type is exactly \<^verbatim>\<open>str\<close> it appends the message of role
  \<^verbatim>\<open>user\<close> with that text and advances the message index by one.
\<close>

theorem add_message_from_user_exact_type:
  "(py_type user_msg \<noteq> StrT \<longrightarrow>
      add_message_from_user user_msg s
        = (s, Inl (ValueError (''Incorrect message type - expecting string, user_msg is ''
                                 @ type_repr (py_type user_msg)))))
   \<and> (py_type user_msg = StrT \<longrightarrow>
      (\<exists>t. user_msg = PyStr t)
      \<and> add_message_from_user user_msg s
        = (s\<lparr>messages := messages s
                @ [PyDict [(''role'', PyStr ''user''), (''content'', user_msg)]],
             message_index := message_index s + 1\<rparr>, Inr PyNone))"
  by (cases user_msg) (simp_all add: add_message_from_user_def add_message_def)

text \<open>
  The amended C5 at the integer 42 and at the text \<^verbatim>\<open>Hi\<close>.
\<close>

theorem add_message_from_user_exact_type_witness:
  "add_message_from_user (PyInt 42) example_handler
     = (example_handler,
        Inl (ValueError (''Incorrect message type - expecting string, user_msg is ''
               @ class_repr ''int'')))
   \<and> add_message_from_user (PyStr ''Hi'') example_handler
     = (example_handler
          \<lparr>messages :=
             [PyDict [(''role'', PyStr ''system''), (''content'', PyStr ''You are helpful.'')],
              PyDict [(''role'', PyStr ''user''), (''content'', PyStr ''Hi'')]],
           message_index := 1\<rparr>, Inr PyNone)"
  using add_message_from_user_exact_type [of "PyInt 42" example_handler]
    add_message_from_user_exact_type [of "PyStr ''Hi''" example_handler]
  by (simp add: example_handler_def init_default_def init_def add_message_def)

text \<open>
  C9: for every instance of a proper subclass of \<^verbatim>\<open>str\<close>, which is text,
  \<^verbatim>\<open>add_message_from_user\<close> raises \<^verbatim>\<open>ValueError\<close> and leaves the handler as
  it was: the check compares the exact runtime type with \<^verbatim>\<open>str\<close>.
\<close>

theorem add_message_from_user_rejects_str_subclass:
  "isinstance_str (PyStrSub c t)
   \<and> add_message_from_user (PyStrSub c t) s
       = (s, Inl (ValueError (''Incorrect message type - expecting string, user_msg is ''
                               @ type_repr (ClassT c))))"
  by (simp add: add_message_from_user_def)

text \<open>
  C8: the append of an assistant message, \<^verbatim>\<open>add_message('assistant', text)\<close>,
  succeeds for every value of \<open>text\<close>, of whatever type, and appends the message of
  role \<^verbatim>\<open>assistant\<close> with that content, advancing the message index by one: for
  \<^verbatim>\<open>hello\<close> it appends the assistant message \<^verbatim>\<open>hello\<close>. It is the append
  \<^verbatim>\<open>add_message_from_gpt_response\<close> goes through with the content of the first
  candidate of a response, which it does not validate either.
\<close>

theorem assistant_message_appended_unconditionally:
  "messages (add_message (PyStr ''assistant'') text s)
     = messages s @ [PyDict [(''role'', PyStr ''assistant''), (''content'', text)]]
   \<and> message_index (add_message (PyStr ''assistant'') text s) = message_index s + 1
   \<and> messages (add_message (PyStr ''assistant'') (PyStr ''hello'') s)
     = messages s @ [PyDict [(''role'', PyStr ''assistant''), (''content'', PyStr ''hello'')]]
   \<and> (map_of attrs ''choices'' = Some (PyList (PyObj c1 attrs1 # others))
      \<and> map_of attrs1 ''message'' = Some (PyObj c2 attrs2)
      \<and> map_of attrs2 ''content'' = Some reply \<longrightarrow>
    add_message_from_gpt_response (PyObj c attrs) s
      = (add_message (PyStr ''assistant'') reply s, Inr PyNone))"
  by (simp add: add_message_def add_message_from_gpt_response_wellformed)

text \<open>
  C8 at the integer 42 as the text, and at responses whose first candidate has the
  content \<^verbatim>\<open>hello\<close> and the content \<^verbatim>\<open>None\<close>.
\<close>

theorem assistant_message_appended_unconditionally_witness:
  "messages (add_message (PyStr ''assistant'') (PyInt 42) example_handler)
     = [PyDict [(''role'', PyStr ''system''), (''content'', PyStr ''You are helpful.'')],
        PyDict [(''role'', PyStr ''assistant''), (''content'', PyInt 42)]]
   \<and> add_message_from_gpt_response
     (PyObj OpenAIObject
        [(''choices'', PyList
           [PyObj OpenAIObject
              [(''message'', PyObj OpenAIObject [(''content'', PyStr ''hello'')])]])])
     example_handler
   = (example_handler
        \<lparr>messages :=
           [PyDict [(''role'', PyStr ''system''), (''content'', PyStr ''You are helpful.'')],
            PyDict [(''role'', PyStr ''assistant''), (''content'', PyStr ''hello'')]],
         message_index := 1\<rparr>, Inr PyNone)
   \<and> add_message_from_gpt_response
     (PyObj OpenAIObject
        [(''choices'', PyList
           [PyObj OpenAIObject
              [(''message'', PyObj OpenAIObject [(''content'', PyNone)])]])])
     example_handler
   = (example_handler
        \<lparr>messages :=
           [PyDict [(''role'', PyStr ''system''), (''content'', PyStr ''You are helpful.'')],
            PyDict [(''role'', PyStr ''assistant''), (''content'', PyNone)]],
         message_index := 1\<rparr>, Inr PyNone)"
  using assistant_message_appended_unconditionally
    [of "PyInt 42" example_handler
        "[(''choices'', PyList
           [PyObj OpenAIObject
              [(''message'', PyObj OpenAIObject [(''content'', PyStr ''hello'')])]])]"
        OpenAIObject
        "[(''message'', PyObj OpenAIObject [(''content'', PyStr ''hello'')])]"
        "[]" OpenAIObject "[(''content'', PyStr ''hello'')]" "PyStr ''hello''"
        OpenAIObject]
    assistant_message_appended_unconditionally
    [of "PyInt 42" example_handler
        "[(''choices'', PyList
           [PyObj OpenAIObject
              [(''message'', PyObj OpenAIObject [(''content'', PyNone)])]])]"
        OpenAIObject
        "[(''message'', PyObj OpenAIObject [(''content'', PyNone)])]"
        "[]" OpenAIObject "[(''content'', PyNone)]" PyNone
        OpenAIObject]
  by (simp add: example_handler_def init_default_def init_def add_message_def)

subsection \<open>The completion call\<close>

text \<open>
  What \<^verbatim>\<open>get_chatgpt_response\<close> does after the outbound call raised, and after
  it returned.
\<close>

lemma get_chatgpt_response_on_exception:
  assumes "create (create_kwargs s) = Inl e"
  shows "get_chatgpt_response create print s =
           (if is_APIError e then
              (case print (An_OpenAI_error_occurred e) of
                 None \<Rightarrow> (s, [An_OpenAI_error_occurred e], Inr PyNone)
               | Some x \<Rightarrow> (s, [], Inl x))
            else if is_Exception e then
              (case print (An_unexpected_error_occurred e) of
                 None \<Rightarrow> (s, [An_unexpected_error_occurred e], Inr PyNone)
               | Some x \<Rightarrow> (s, [], Inl x))
            else (s, [], Inl e))"
  using assms by (simp add: get_chatgpt_response_def)

lemma get_chatgpt_response_on_response:
  assumes "create (create_kwargs s) = Inr response"
  shows "get_chatgpt_response create print s =
           (case snd (add_message_from_gpt_response response s) of
              Inr v \<Rightarrow> (fst (add_message_from_gpt_response response s), [], Inr PyNone)
            | Inl e \<Rightarrow>
                (case print (An_unexpected_error_occurred e) of
                   None \<Rightarrow> (s, [An_unexpected_error_occurred e], Inr PyNone)
                 | Some x \<Rightarrow> (s, [], Inl x)))"
proof (cases "snd (add_message_from_gpt_response response s)")
  case (Inl e)
  from add_message_from_gpt_response_raises [OF Inl] Inl assms show ?thesis
    by (simp add: get_chatgpt_response_def split_beta split: option.splits)
next
  case (Inr v)
  with assms show ?thesis
    by (simp add: get_chatgpt_response_def split_beta)
qed

text \<open>
  The input that refutes C3 as stated: the service raises an \<^verbatim>\<open>APIError\<close>, the
  first \<^verbatim>\<open>except\<close> clause catches it, and its \<^verbatim>\<open>print\<close> raises on a closed
  standard output: that exception reaches the caller.
\<close>

theorem get_chatgpt_response_report_raises_counterexample:
  "get_chatgpt_response (\<lambda>kwargs. Inl (APIError ''The server is overloaded''))
     (\<lambda>line. Some (ValueError ''I/O operation on closed file.'')) example_handler
   = (example_handler, [], Inl (ValueError ''I/O operation on closed file.''))"
  by (simp add: get_chatgpt_response_def)

text \<open>
  C3, amended: when the completion call fails, by an \<^verbatim>\<open>APIError\<close> or another
  \<^verbatim>\<open>Exception\<close> of the service, or by a response from which no first candidate's
  content can be read, \<^verbatim>\<open>get_chatgpt_response\<close> catches the exception and leaves
  the handler exactly as it was. When the \<^verbatim>\<open>print\<close> of the line that reports it
  completes, nothing is raised to the caller and the method returns \<^verbatim>\<open>None\<close>, as
  it does on success; when that \<^verbatim>\<open>print\<close> raises, its exception reaches the
  caller.
\<close>

theorem get_chatgpt_response_swallows_failure:
  assumes "(create (create_kwargs s) = Inl e \<and> is_Exception e)
           \<or> (\<exists>response. create (create_kwargs s) = Inr response
                 \<and> snd (add_message_from_gpt_response response s) = Inl e)"
    and "line = (if is_APIError e then An_OpenAI_error_occurred e
                 else An_unexpected_error_occurred e)"
  shows "fst (get_chatgpt_response create print s) = s
         \<and> (print line = None \<longrightarrow>
              get_chatgpt_response create print s = (s, [line], Inr PyNone))
         \<and> (print line = Some x \<longrightarrow>
              get_chatgpt_response create print s = (s, [], Inl x))"
  using assms(1)
proof (elim disjE conjE exE)
  assume "create (create_kwargs s) = Inl e" and "is_Exception e"
  with assms(2) show ?thesis
    by (auto simp: get_chatgpt_response_on_exception split: option.splits)
next
  fix response
  assume c: "create (create_kwargs s) = Inr response"
    and r: "snd (add_message_from_gpt_response response s) = Inl e"
  from add_message_from_gpt_response_raises(3) [OF r] r assms(2) show ?thesis
    by (auto simp: get_chatgpt_response_on_response [of create s, OF c] split: option.splits)
qed

text \<open>
  The amended C3 at an \<^verbatim>\<open>APIError\<close>, at another exception of the service and at
  a response with an empty list of candidates, each with a \<^verbatim>\<open>print\<close> that
  completes, and at an exception of the service with a \<^verbatim>\<open>print\<close> into a broken
  pipe.
\<close>

theorem get_chatgpt_response_swallows_failure_witness:
  "get_chatgpt_response (\<lambda>kwargs. Inl (APIError ''The server is overloaded''))
       (\<lambda>line. None) example_handler
     = (example_handler,
        [An_OpenAI_error_occurred (APIError ''The server is overloaded'')], Inr PyNone)
   \<and> get_chatgpt_response (\<lambda>kwargs. Inl (OtherException ''Timeout''))
       (\<lambda>line. None) example_handler
     = (example_handler, [An_unexpected_error_occurred (OtherException ''Timeout'')], Inr PyNone)
   \<and> get_chatgpt_response
        (\<lambda>kwargs. Inr (PyObj OpenAIObject [(''choices'', PyList [])]))
        (\<lambda>line. None) example_handler
     = (example_handler, [An_unexpected_error_occurred IndexError], Inr PyNone)
   \<and> get_chatgpt_response (\<lambda>kwargs. Inl (OtherException ''Timeout''))
       (\<lambda>line. Some (OtherException ''BrokenPipeError'')) example_handler
     = (example_handler, [], Inl (OtherException ''BrokenPipeError''))"
proof -
  have a: "get_chatgpt_response (\<lambda>kwargs. Inl (APIError ''The server is overloaded''))
       (\<lambda>line. None) example_handler
     = (example_handler,
        [An_OpenAI_error_occurred (APIError ''The server is overloaded'')], Inr PyNone)"
    using get_chatgpt_response_swallows_failure
      [of "\<lambda>kwargs. Inl (APIError ''The server is overloaded'')" example_handler
          "APIError ''The server is overloaded''"
          "An_OpenAI_error_occurred (APIError ''The server is overloaded'')"
          "\<lambda>line. None"]
    by simp
  have b: "get_chatgpt_response (\<lambda>kwargs. Inl (OtherException ''Timeout''))
       (\<lambda>line. None) example_handler
     = (example_handler, [An_unexpected_error_occurred (OtherException ''Timeout'')], Inr PyNone)"
    using get_chatgpt_response_swallows_failure
      [of "\<lambda>kwargs. Inl (OtherException ''Timeout'')" example_handler "OtherException ''Timeout''"
          "An_unexpected_error_occurred (OtherException ''Timeout'')" "\<lambda>line. None"]
    by simp
  have "snd (add_message_from_gpt_response (PyObj OpenAIObject [(''choices'', PyList [])])
               example_handler) = Inl IndexError"
    by (simp add: add_message_from_gpt_response_def list_getitem_def)
  then have c: "get_chatgpt_response
        (\<lambda>kwargs. Inr (PyObj OpenAIObject [(''choices'', PyList [])]))
        (\<lambda>line. None) example_handler
     = (example_handler, [An_unexpected_error_occurred IndexError], Inr PyNone)"
    using get_chatgpt_response_swallows_failure
      [of "\<lambda>kwargs. Inr (PyObj OpenAIObject [(''choices'', PyList [])])" example_handler
          IndexError "An_unexpected_error_occurred IndexError" "\<lambda>line. None"]
    by simp
  have d: "get_chatgpt_response (\<lambda>kwargs. Inl (OtherException ''Timeout''))
       (\<lambda>line. Some (OtherException ''BrokenPipeError'')) example_handler
     = (example_handler, [], Inl (OtherException ''BrokenPipeError''))"
    using get_chatgpt_response_swallows_failure
      [of "\<lambda>kwargs. Inl (OtherException ''Timeout'')" example_handler "OtherException ''Timeout''"
          "An_unexpected_error_occurred (OtherException ''Timeout'')"
          "\<lambda>line. Some (OtherException ''BrokenPipeError'')" "OtherException ''BrokenPipeError''"]
    by simp
  from a b c d show ?thesis by simp
qed

text \<open>
  C4: \<^verbatim>\<open>get_chatgpt_response\<close> hands the service the whole transcript and
  the six generation parameters; when the service answers with a response whose
  list of candidates starts with one that has a message content, the method appends
  exactly that content as one \<^verbatim>\<open>assistant\<close> message, advances the message
  index, and the transcript is one longer.
\<close>

theorem get_chatgpt_response_appends_first_candidate:
  assumes "create \<lparr>arg_model = model s, arg_messages = messages s,
                   arg_temperature = temperature s, arg_max_tokens = max_tokens s,
                   arg_top_p = top_p s, arg_frequency_penalty = frequency_penalty s,
                   arg_presence_penalty = presence_penalty s\<rparr>
             = Inr (PyObj c attrs)"
    and "map_of attrs ''choices'' = Some (PyList (PyObj c1 attrs1 # others))"
    and "map_of attrs1 ''message'' = Some (PyObj c2 attrs2)"
    and "map_of attrs2 ''content'' = Some reply"
  shows "get_chatgpt_response create print s =
           (s\<lparr>messages := messages s
                 @ [PyDict [(''role'', PyStr ''assistant''), (''content'', reply)]],
              message_index := message_index s + 1\<rparr>, [], Inr PyNone)
         \<and> length (messages (fst (get_chatgpt_response create print s))) = length (messages s) + 1"
proof -
  from assms(1) have c: "create (create_kwargs s) = Inr (PyObj c attrs)"
    by (simp add: create_kwargs_def)
  have "get_chatgpt_response create print s =
           (s\<lparr>messages := messages s
                 @ [PyDict [(''role'', PyStr ''assistant''), (''content'', reply)]],
              message_index := message_index s + 1\<rparr>, [], Inr PyNone)"
    by (simp add: get_chatgpt_response_on_response [of create s, OF c]
        add_message_from_gpt_response_wellformed [OF assms(2-4)] add_message_def)
  then show ?thesis by simp
qed

text \<open>
  C4 on the running example, with a service that answers this one request only,
  by two candidates: the first one's \<^verbatim>\<open>Hello!\<close> is appended.
\<close>

theorem get_chatgpt_response_appends_first_candidate_witness:
  "get_chatgpt_response
     (\<lambda>kwargs.
        if kwargs =
           \<lparr>arg_model = PyStr ''gpt-3.5-turbo'',
            arg_messages =
              [PyDict [(''role'', PyStr ''system''), (''content'', PyStr ''You are helpful.'')],
               PyDict [(''role'', PyStr ''user''), (''content'', PyStr ''Hi'')]],
            arg_temperature = PyInt 1, arg_max_tokens = PyInt 1024, arg_top_p = PyInt 1,
            arg_frequency_penalty = PyInt 0, arg_presence_penalty = PyInt 0\<rparr>
        then Inr (PyObj OpenAIObject
               [(''choices'', PyList
                  [PyObj OpenAIObject
                     [(''message'', PyObj OpenAIObject [(''content'', PyStr ''Hello!'')])],
                   PyObj OpenAIObject
                     [(''message'', PyObj OpenAIObject [(''content'', PyStr ''Good day!'')])]])])
        else Inl (OtherException ''unexpected request''))
     (\<lambda>line. None)
     (fst (add_message_from_user (PyStr ''Hi'') example_handler))
   = (\<lparr>model = PyStr ''gpt-3.5-turbo'', temperature = PyInt 1, max_tokens = PyInt 1024,
       top_p = PyInt 1, frequency_penalty = PyInt 0, presence_penalty = PyInt 0,
       system_context = PyStr ''You are helpful.'',
       messages =
         [PyDict [(''role'', PyStr ''system''), (''content'', PyStr ''You are helpful.'')],
          PyDict [(''role'', PyStr ''user''), (''content'', PyStr ''Hi'')],
          PyDict [(''role'', PyStr ''assistant''), (''content'', PyStr ''Hello!'')]],
       message_index = 2\<rparr>, [], Inr PyNone)"
  using get_chatgpt_response_appends_first_candidate
    [of "\<lambda>kwargs.
        if kwargs =
           \<lparr>arg_model = PyStr ''gpt-3.5-turbo'',
            arg_messages =
              [PyDict [(''role'', PyStr ''system''), (''content'', PyStr ''You are helpful.'')],
               PyDict [(''role'', PyStr ''user''), (''content'', PyStr ''Hi'')]],
            arg_temperature = PyInt 1, arg_max_tokens = PyInt 1024, arg_top_p = PyInt 1,
            arg_frequency_penalty = PyInt 0, arg_presence_penalty = PyInt 0\<rparr>
        then Inr (PyObj OpenAIObject
               [(''choices'', PyList
                  [PyObj OpenAIObject
                     [(''message'', PyObj OpenAIObject [(''content'', PyStr ''Hello!'')])],
                   PyObj OpenAIObject
                     [(''message'', PyObj OpenAIObject [(''content'', PyStr ''Good day!'')])]])])
        else Inl (OtherException ''unexpected request'')"
      "fst (add_message_from_user (PyStr ''Hi'') example_handler)"
      "OpenAIObject"
      "[(''choices'', PyList
                  [PyObj OpenAIObject
                     [(''message'', PyObj OpenAIObject [(''content'', PyStr ''Hello!'')])],
                   PyObj OpenAIObject
                     [(''message'', PyObj OpenAIObject [(''content'', PyStr ''Good day!'')])]])]"
      "OpenAIObject"
      "[(''message'', PyObj OpenAIObject [(''content'', PyStr ''Hello!'')])]"
      "[PyObj OpenAIObject
          [(''message'', PyObj OpenAIObject [(''content'', PyStr ''Good day!'')])]]"
      "OpenAIObject"
      "[(''content'', PyStr ''Hello!'')]"
      "PyStr ''Hello!''" "\<lambda>line. None"]
  by (simp add: example_handler_def init_default_def init_def add_message_def
      add_message_from_user_def)

subsection \<open>The message index\<close>

text \<open>
  Every method keeps the message index at the last position of the transcript.
\<close>

lemma add_message_index_ok: "index_ok s \<Longrightarrow> index_ok (add_message role content s)"
  by (simp add: index_ok_def add_message_def)

lemma add_message_from_user_index_ok:
  "index_ok s \<Longrightarrow> index_ok (fst (add_message_from_user v s))"
  by (simp add: add_message_from_user_def add_message_index_ok)

lemma add_message_from_gpt_response_index_ok:
  assumes "index_ok s"
  shows "index_ok (fst (add_message_from_gpt_response v s))"
proof (cases "snd (add_message_from_gpt_response v s)")
  case (Inl e)
  with assms show ?thesis
    by (simp add: add_message_from_gpt_response_raises(1))
next
  case (Inr r)
  from add_message_from_gpt_response_returns [OF Inr] assms show ?thesis
    by (auto simp: add_message_index_ok)
qed

lemma get_chatgpt_response_state:
  "fst (get_chatgpt_response create print s) = s
   \<or> (\<exists>response. fst (get_chatgpt_response create print s)
         = fst (add_message_from_gpt_response response s))"
proof (cases "create (create_kwargs s)")
  case (Inl e)
  then show ?thesis
    by (simp add: get_chatgpt_response_on_exception split: option.splits)
next
  case (Inr response)
  show ?thesis
    by (auto simp: get_chatgpt_response_on_response [of create s, OF Inr]
        split: sum.splits option.splits)
qed

lemma get_chatgpt_response_index_ok:
  "index_ok s \<Longrightarrow> index_ok (fst (get_chatgpt_response create print s))"
  using get_chatgpt_response_state [of create print s]
  by (auto simp: add_message_from_gpt_response_index_ok)

lemma clear_history_index_ok: "index_ok (clear_history s)"
  by (simp add: clear_history_def add_message_def index_ok_def)

lemma init_index_ok:
  "index_ok (init api_key model_name system_ctx temp max_tok topp freq_pen pres_pen)"
  by (simp add: init_def add_message_def index_ok_def)

lemma after_call_index_ok: "index_ok s \<Longrightarrow> index_ok (after_call c s)"
  by (cases c)
    (simp_all add: add_message_index_ok add_message_from_user_index_ok
      add_message_from_gpt_response_index_ok get_chatgpt_response_index_ok
      clear_history_index_ok)

lemma run_index_ok: "index_ok s \<Longrightarrow> index_ok (run calls s)"
  unfolding run_def
  by (induction calls arbitrary: s) (simp_all add: after_call_index_ok)

text \<open>
  C6: after every sequence of calls on a new handler the message index is the size
  of the transcript minus one; and each call that appends (\<^verbatim>\<open>add_message\<close>,
  \<^verbatim>\<open>add_message_from_user\<close> and \<^verbatim>\<open>add_message_from_gpt_response\<close> when they
  return, \<^verbatim>\<open>get_chatgpt_response\<close> when it returns without having printed an
  error) makes the transcript exactly one longer.
\<close>

theorem message_index_is_last_position:
  "index_ok (run calls (init api_key model_name system_ctx temp max_tok topp freq_pen pres_pen))
   \<and> length (messages (add_message role content s)) = length (messages s) + 1
   \<and> (snd (add_message_from_user user_msg s) = Inr r1 \<longrightarrow>
        length (messages (fst (add_message_from_user user_msg s))) = length (messages s) + 1)
   \<and> (snd (add_message_from_gpt_response gpt_response s) = Inr r2 \<longrightarrow>
        length (messages (fst (add_message_from_gpt_response gpt_response s)))
          = length (messages s) + 1)
   \<and> (snd (get_chatgpt_response create print s) = ([], Inr r3) \<longrightarrow>
        length (messages (fst (get_chatgpt_response create print s))) = length (messages s) + 1)"
proof (intro conjI impI)
  show "index_ok (run calls (init api_key model_name system_ctx temp max_tok topp freq_pen pres_pen))"
    by (rule run_index_ok [OF init_index_ok])
  show "length (messages (add_message role content s)) = length (messages s) + 1"
    by (simp add: add_message_def)
  show "length (messages (fst (add_message_from_user user_msg s))) = length (messages s) + 1"
    if "snd (add_message_from_user user_msg s) = Inr r1"
    using that by (simp add: add_message_from_user_def add_message_def split: if_splits)
  show "length (messages (fst (add_message_from_gpt_response gpt_response s)))
          = length (messages s) + 1"
    if "snd (add_message_from_gpt_response gpt_response s) = Inr r2"
    using add_message_from_gpt_response_returns [OF that] by (auto simp: add_message_def)
  show "length (messages (fst (get_chatgpt_response create print s))) = length (messages s) + 1"
    if a: "snd (get_chatgpt_response create print s) = ([], Inr r3)"
  proof (cases "create (create_kwargs s)")
    case (Inl e)
    with a show ?thesis
      by (simp add: get_chatgpt_response_on_exception split: if_splits option.splits)
  next
    case (Inr response)
    show ?thesis
    proof (cases "snd (add_message_from_gpt_response response s)")
      case (Inl e)
      with a show ?thesis
        by (simp add: get_chatgpt_response_on_response [of create s, OF Inr]
            split: option.splits)
    next
      case inr: (Inr v)
      from add_message_from_gpt_response_returns [OF inr] inr show ?thesis
        by (auto simp: get_chatgpt_response_on_response [of create s, OF Inr] add_message_def)
    qed
  qed
qed

text \<open>
  C6 on a sequence with a rejected user message, a failed completion and a reset in
  it, and on one call of each appending method.
\<close>

theorem message_index_is_last_position_witness:
  "index_ok
     (run [Add_message_from_user (PyStr ''Hi''),
           Add_message_from_user (PyInt 42),
           Get_chatgpt_response (\<lambda>kwargs. Inl (APIError ''The server is overloaded''))
             (\<lambda>line. None),
           Add_message_from_gpt_response
             (PyObj OpenAIObject
                [(''choices'', PyList
                   [PyObj OpenAIObject
                      [(''message'', PyObj OpenAIObject [(''content'', PyStr ''Hello!'')])]])]),
           Get_response None,
           Clear_history,
           Add_message (PyStr ''user'') (PyStr ''Hi again'')]
        (init (PyStr ''sk-example'') (PyStr ''gpt-3.5-turbo'') (PyStr ''You are helpful.'')
           (PyInt 1) (PyInt 1024) (PyInt 1) (PyInt 0) (PyInt 0)))
   \<and> length (messages (add_message (PyStr ''assistant'') (PyStr ''Hello!'') example_handler)) = 2
   \<and> length (messages (fst (add_message_from_user (PyStr ''Hi'') example_handler))) = 2
   \<and> length (messages (fst (add_message_from_gpt_response
         (PyObj OpenAIObject
            [(''choices'', PyList
               [PyObj OpenAIObject
                  [(''message'', PyObj OpenAIObject [(''content'', PyStr ''Hello!'')])]])])
         example_handler))) = 2
   \<and> length (messages (fst (get_chatgpt_response
         (\<lambda>kwargs. Inr (PyObj OpenAIObject
            [(''choices'', PyList
               [PyObj OpenAIObject
                  [(''message'', PyObj OpenAIObject [(''content'', PyStr ''Hello!'')])]])]))
         (\<lambda>line. None) example_handler))) = 2"
proof -
  have u: "snd (add_message_from_user (PyStr ''Hi'') example_handler) = Inr PyNone"
    by (simp add: add_message_from_user_def)
  have g: "snd (add_message_from_gpt_response
         (PyObj OpenAIObject
            [(''choices'', PyList
               [PyObj OpenAIObject
                  [(''message'', PyObj OpenAIObject [(''content'', PyStr ''Hello!'')])]])])
         example_handler) = Inr PyNone"
    by (simp add: add_message_from_gpt_response_def list_getitem_def)
  have c: "snd (get_chatgpt_response
         (\<lambda>kwargs. Inr (PyObj OpenAIObject
            [(''choices'', PyList
               [PyObj OpenAIObject
                  [(''message'', PyObj OpenAIObject [(''content'', PyStr ''Hello!'')])]])]))
         (\<lambda>line. None) example_handler) = ([], Inr PyNone)"
    by (simp add: get_chatgpt_response_def add_message_from_gpt_response_def list_getitem_def)
  have n: "length (messages example_handler) = 1"
    by (simp add: example_handler_def init_default_def init_def add_message_def)
  from u g c n show ?thesis
    using message_index_is_last_position
      [of "[Add_message_from_user (PyStr ''Hi''),
           Add_message_from_user (PyInt 42),
           Get_chatgpt_response (\<lambda>kwargs. Inl (APIError ''The server is overloaded''))
             (\<lambda>line. None),
           Add_message_from_gpt_response
             (PyObj OpenAIObject
                [(''choices'', PyList
                   [PyObj OpenAIObject
                      [(''message'', PyObj OpenAIObject [(''content'', PyStr ''Hello!'')])]])]),
           Get_response None,
           Clear_history,
           Add_message (PyStr ''user'') (PyStr ''Hi again'')]"
        "PyStr ''sk-example''" "PyStr ''gpt-3.5-turbo''" "PyStr ''You are helpful.''"
        "PyInt 1" "PyInt 1024" "PyInt 1" "PyInt 0" "PyInt 0"
        "PyStr ''assistant''" "PyStr ''Hello!''" example_handler
        "PyStr ''Hi''" PyNone
        "PyObj OpenAIObject
            [(''choices'', PyList
               [PyObj OpenAIObject
                  [(''message'', PyObj OpenAIObject [(''content'', PyStr ''Hello!'')])]])]"
        PyNone
        "\<lambda>kwargs. Inr (PyObj OpenAIObject
            [(''choices'', PyList
               [PyObj OpenAIObject
                  [(''message'', PyObj OpenAIObject [(''content'', PyStr ''Hello!'')])]])])"
        "\<lambda>line. None" PyNone]
    by simp
qed

subsection \<open>Reading a message back\<close>

text \<open>
  Every entry the methods put into the transcript is a dictionary, and a dictionary
  has no attribute \<^verbatim>\<open>content\<close>.
\<close>

lemma add_message_dict_entries: "dict_entries s \<Longrightarrow> dict_entries (add_message role content s)"
  by (simp add: dict_entries_def add_message_def)

lemma add_message_from_user_dict_entries:
  "dict_entries s \<Longrightarrow> dict_entries (fst (add_message_from_user v s))"
  by (simp add: add_message_from_user_def add_message_dict_entries)

lemma add_message_from_gpt_response_dict_entries:
  assumes "dict_entries s"
  shows "dict_entries (fst (add_message_from_gpt_response v s))"
proof (cases "snd (add_message_from_gpt_response v s)")
  case (Inl e)
  with assms show ?thesis
    by (simp add: add_message_from_gpt_response_raises(1))
next
  case (Inr r)
  from add_message_from_gpt_response_returns [OF Inr] assms show ?thesis
    by (auto simp: add_message_dict_entries)
qed

lemma get_chatgpt_response_dict_entries:
  "dict_entries s \<Longrightarrow> dict_entries (fst (get_chatgpt_response create print s))"
  using get_chatgpt_response_state [of create print s]
  by (auto simp: add_message_from_gpt_response_dict_entries)

lemma clear_history_dict_entries: "dict_entries (clear_history s)"
  by (simp add: clear_history_def add_message_def dict_entries_def)

lemma init_dict_entries:
  "dict_entries (init api_key model_name system_ctx temp max_tok topp freq_pen pres_pen)"
  by (simp add: init_def add_message_def dict_entries_def)

lemma after_call_dict_entries: "dict_entries s \<Longrightarrow> dict_entries (after_call c s)"
  by (cases c)
    (simp_all add: add_message_dict_entries add_message_from_user_dict_entries
      add_message_from_gpt_response_dict_entries get_chatgpt_response_dict_entries
      clear_history_dict_entries)

lemma run_dict_entries: "dict_entries s \<Longrightarrow> dict_entries (run calls s)"
  unfolding run_def
  by (induction calls arbitrary: s) (simp_all add: after_call_dict_entries)

lemma getattr_dict: "py_type m = DictT \<Longrightarrow> getattr m name = Inl (AttributeError name)"
  by (cases m) simp_all

lemma get_response_dict_entries:
  assumes "dict_entries s"
  shows "get_response index s = Inl IndexError
         \<or> get_response index s = Inl (AttributeError ''content'')"
proof -
  define i where "i = (case index of None \<Rightarrow> message_index s | Some j \<Rightarrow> j)"
  show ?thesis
  proof (cases "list_getitem (messages s) i")
    case (Inl e)
    with list_getitem_exception [OF Inl] show ?thesis
      by (simp add: get_response_def i_def)
  next
    case (Inr m)
    then have "m \<in> set (messages s)"
      by (auto simp: list_getitem_def Let_def split: if_splits)
    with assms have "py_type m = DictT"
      by (simp add: dict_entries_def list_all_iff)
    with Inr show ?thesis
      by (simp add: get_response_def i_def getattr_dict)
  qed
qed

text \<open>
  C1 fails on the code: on a handler reached by any sequence of calls,
  \<^verbatim>\<open>get_response\<close> returns no content at any index, given or left out; on the
  new handler of the running example, \<^verbatim>\<open>get_response(0)\<close> and
  \<^verbatim>\<open>get_response()\<close> raise \<^verbatim>\<open>AttributeError\<close> where the content of the system
  message was to be returned.
\<close>

theorem get_response_never_returns:
  "get_response index
     (run calls (init api_key model_name system_ctx temp max_tok topp freq_pen pres_pen)) \<noteq> Inr v
   \<and> get_response (Some 0) example_handler = Inl (AttributeError ''content'')
   \<and> get_response None example_handler = Inl (AttributeError ''content'')"
proof -
  have "dict_entries (run calls (init api_key model_name system_ctx temp max_tok topp freq_pen pres_pen))"
    by (rule run_dict_entries [OF init_dict_entries])
  from get_response_dict_entries [OF this, of index]
  have "get_response index
     (run calls (init api_key model_name system_ctx temp max_tok topp freq_pen pres_pen)) \<noteq> Inr v"
    by auto
  moreover have "get_response (Some 0) example_handler = Inl (AttributeError ''content'')"
    by (simp add: get_response_def list_getitem_def example_handler_def init_default_def
        init_def add_message_def)
  moreover have "get_response None example_handler = Inl (AttributeError ''content'')"
    by (simp add: get_response_def list_getitem_def example_handler_def init_default_def
        init_def add_message_def)
  ultimately show ?thesis by simp
qed

text \<open>
  The input that refutes C2 as stated: on a transcript of three messages the index
  -1 is outside \<open>[0, 3)\<close> and \<^verbatim>\<open>get_response\<close> does not raise
  \<^verbatim>\<open>IndexError\<close> there (the index selects the last entry), while the index 99
  does raise it.
\<close>

theorem get_response_negative_index_counterexample:
  "length (messages (run [Add_message_from_user (PyStr ''Hi''),
                          Add_message (PyStr ''assistant'') (PyStr ''Hello!'')]
                       example_handler)) = 3
   \<and> get_response (Some (- 1))
        (run [Add_message_from_user (PyStr ''Hi''),
              Add_message (PyStr ''assistant'') (PyStr ''Hello!'')] example_handler)
       = Inl (AttributeError ''content'')
   \<and> get_response (Some (- 1))
        (run [Add_message_from_user (PyStr ''Hi''),
              Add_message (PyStr ''assistant'') (PyStr ''Hello!'')] example_handler)
       \<noteq> Inl IndexError
   \<and> get_response (Some 99)
        (run [Add_message_from_user (PyStr ''Hi''),
              Add_message (PyStr ''assistant'') (PyStr ''Hello!'')] example_handler)
       = Inl IndexError"
  by (simp add: run_def get_response_def list_getitem_def example_handler_def init_default_def
      init_def add_message_def add_message_from_user_def)

text \<open>
  C2, amended: for every handler and every integer index, \<^verbatim>\<open>get_response\<close>
  raises \<^verbatim>\<open>IndexError\<close> exactly when the index is outside
  \<open>[-size, size)\<close> of the transcript. An index \<open>i\<close> from \<open>-size\<close> to \<open>-1\<close> counts
  from the end of the transcript: \<^verbatim>\<open>get_response(i)\<close> does what
  \<^verbatim>\<open>get_response(size + i)\<close> does, and what an index from \<open>0\<close> to \<open>size - 1\<close>
  yields is determined by the entry at that position.
\<close>

theorem get_response_index_error_iff:
  "(get_response (Some i) s = Inl IndexError)
     = (i < - int (length (messages s)) \<or> int (length (messages s)) \<le> i)
   \<and> (- int (length (messages s)) \<le> i \<and> i < 0 \<longrightarrow>
        get_response (Some i) s = get_response (Some (int (length (messages s)) + i)) s)
   \<and> (0 \<le> j \<and> j < int (length (messages s)) \<and> 0 \<le> k \<and> k < int (length (messages s'))
        \<and> messages s ! nat j = messages s' ! nat k \<longrightarrow>
        get_response (Some j) s = get_response (Some k) s')"
proof (intro conjI impI)
  show "(get_response (Some i) s = Inl IndexError)
     = (i < - int (length (messages s)) \<or> int (length (messages s)) \<le> i)"
  proof (cases "list_getitem (messages s) i")
    case (Inl e)
    then have "i < - int (length (messages s)) \<or> int (length (messages s)) \<le> i"
      by (auto simp: list_getitem_def Let_def split: if_splits)
    with Inl list_getitem_exception [OF Inl] show ?thesis
      by (simp add: get_response_def)
  next
    case (Inr m)
    then have "\<not> (i < - int (length (messages s)) \<or> int (length (messages s)) \<le> i)"
      by (auto simp: list_getitem_def Let_def split: if_splits)
    moreover have "getattr m ''content'' \<noteq> Inl IndexError"
      using getattr_exception [of m "''content''" IndexError] by auto
    ultimately show ?thesis
      using Inr by (simp add: get_response_def)
  qed
next
  assume "- int (length (messages s)) \<le> i \<and> i < 0"
  then show "get_response (Some i) s
               = get_response (Some (int (length (messages s)) + i)) s"
    by (simp add: get_response_def list_getitem_def Let_def)
next
  assume "0 \<le> j \<and> j < int (length (messages s)) \<and> 0 \<le> k \<and> k < int (length (messages s'))
        \<and> messages s ! nat j = messages s' ! nat k"
  then show "get_response (Some j) s = get_response (Some k) s'"
    by (simp add: get_response_def list_getitem_def Let_def)
qed

text \<open>
  The amended C2 on the transcript of three messages: the index -1 does what the
  index 2 does, and the index 1 yields there what it yields on the transcript of the
  first two of these messages.
\<close>

theorem get_response_index_error_iff_witness:
  "get_response (Some (- 1))
        (run [Add_message_from_user (PyStr ''Hi''),
              Add_message (PyStr ''assistant'') (PyStr ''Hello!'')] example_handler)
     = get_response (Some 2)
        (run [Add_message_from_user (PyStr ''Hi''),
              Add_message (PyStr ''assistant'') (PyStr ''Hello!'')] example_handler)
   \<and> get_response (Some 1)
        (run [Add_message_from_user (PyStr ''Hi''),
              Add_message (PyStr ''assistant'') (PyStr ''Hello!'')] example_handler)
     = get_response (Some 1) (run [Add_message_from_user (PyStr ''Hi'')] example_handler)
   \<and> get_response (Some (- 4))
        (run [Add_message_from_user (PyStr ''Hi''),
              Add_message (PyStr ''assistant'') (PyStr ''Hello!'')] example_handler)
     = Inl IndexError"
proof -
  have n: "messages (run [Add_message_from_user (PyStr ''Hi''),
              Add_message (PyStr ''assistant'') (PyStr ''Hello!'')] example_handler)
      = [PyDict [(''role'', PyStr ''system''), (''content'', PyStr ''You are helpful.'')],
         PyDict [(''role'', PyStr ''user''), (''content'', PyStr ''Hi'')],
         PyDict [(''role'', PyStr ''assistant''), (''content'', PyStr ''Hello!'')]]"
    by (simp add: run_def example_handler_def init_default_def init_def add_message_def
        add_message_from_user_def)
  have m: "messages (run [Add_message_from_user (PyStr ''Hi'')] example_handler)
      = [PyDict [(''role'', PyStr ''system''), (''content'', PyStr ''You are helpful.'')],
         PyDict [(''role'', PyStr ''user''), (''content'', PyStr ''Hi'')]]"
    by (simp add: run_def example_handler_def init_default_def init_def add_message_def
        add_message_from_user_def)
  show ?thesis
    using get_response_index_error_iff
      [of "- 1" "run [Add_message_from_user (PyStr ''Hi''),
              Add_message (PyStr ''assistant'') (PyStr ''Hello!'')] example_handler"
          1 1 "run [Add_message_from_user (PyStr ''Hi'')] example_handler"]
      get_response_index_error_iff
      [of "- 4" "run [Add_message_from_user (PyStr ''Hi''),
              Add_message (PyStr ''assistant'') (PyStr ''Hello!'')] example_handler"
          1 1 "run [Add_message_from_user (PyStr ''Hi'')] example_handler"]
    by (simp add: n m)
qed

end
